theory Spec2Isabelle
  imports
    Complex_Main
    "HOL-Library.Multiset"
    "HOL-Library.Product_Lexorder"
    "HOL-Library.List_Lexorder"
    "HOL-Library.Char_ord"
begin

section \<open>Family tree explorer: the object graph and its queries\<close>

text \<open>
  The program (\<^verbatim>\<open>Main Project.py\<close>) keeps a graph of person objects that refer to
  one another (parents, children, spouse) and a registry \<^verbatim>\<open>FamilyTree.members\<close> from
  names to persons. Object identity matters (the spouse setter writes into two objects,
  the link operations append to other objects' lists), so persons live in a store
  indexed by references, and every operation that assigns to a field takes the store
  and returns the updated one.
\<close>

subsection \<open>Calendar dates (\<^verbatim>\<open>datetime.date\<close>)\<close>

text \<open>
  Only three things of \<^verbatim>\<open>datetime.date\<close> are used by the program: the fields
  \<^verbatim>\<open>month\<close> and \<^verbatim>\<open>day\<close>, the difference of two dates in days, and the text
  \<^verbatim>\<open>str(d)\<close>. The difference is the difference of the proleptic Gregorian ordinals,
  computed as the library computes them.
\<close>

record date =
  year :: int
  month :: int
  day :: int

definition mk_date :: "int \<Rightarrow> int \<Rightarrow> int \<Rightarrow> date" where
  "mk_date y m d = \<lparr>year = y, month = m, day = d\<rparr>"

definition is_leap :: "int \<Rightarrow> bool" where
  "is_leap y = (y mod 4 = 0 \<and> (y mod 100 \<noteq> 0 \<or> y mod 400 = 0))"

definition days_before_year :: "int \<Rightarrow> int" where
  "days_before_year y = (let z = y - 1 in z * 365 + z div 4 - z div 100 + z div 400)"

definition days_in_month :: "int list" where
  "days_in_month = [31, 28, 31, 30, 31, 30, 31, 31, 30, 31, 30, 31]"

definition days_before_month :: "int \<Rightarrow> int \<Rightarrow> int" where
  "days_before_month y m =
     sum_list (take (nat (m - 1)) days_in_month) + (if 2 < m \<and> is_leap y then 1 else 0)"

definition toordinal :: "date \<Rightarrow> int" where
  "toordinal d = days_before_year (year d) + days_before_month (year d) (month d) + day d"

text \<open>\<^verbatim>\<open>(a - b).days\<close>\<close>

definition days_between :: "date \<Rightarrow> date \<Rightarrow> int" where
  "days_between a b = toordinal a - toordinal b"

text \<open>
  \<^verbatim>\<open>str(d)\<close> is the ISO form \<^verbatim>\<open>YYYY-MM-DD\<close>, each field in decimal and padded with
  zeros to its width. The fields of a date object are positive.
\<close>

fun digits :: "nat \<Rightarrow> string" where
  "digits n =
     (if n < 10 then [''0123456789'' ! n] else digits (n div 10) @ [''0123456789'' ! (n mod 10)])"

declare digits.simps [simp del]

definition zfill :: "nat \<Rightarrow> string \<Rightarrow> string" where
  "zfill w s = replicate (w - length s) (CHR ''0'') @ s"

definition str_date :: "date \<Rightarrow> string" where
  "str_date d =
     zfill 4 (digits (nat (year d))) @ ''-'' @ zfill 2 (digits (nat (month d))) @ ''-'' @
     zfill 2 (digits (nat (day d)))"

subsection \<open>Persons and the object store\<close>

text \<open>
  A reference is the identity of a person object. The class of an object is one of
  \<^verbatim>\<open>PersonBase\<close>, \<^verbatim>\<open>LivingPerson\<close> and \<^verbatim>\<open>DeceasedPerson\<close>; only the last has a
  \<^verbatim>\<open>death_date\<close>. The birth date is optional because the program itself tests it
  (\<^verbatim>\<open>if person.birth_date:\<close>); a date object is always true there, \<^verbatim>\<open>None\<close> is not.
  The field \<^verbatim>\<open>_spouse\<close> starts as \<^verbatim>\<open>None\<close>.
\<close>

type_synonym ref = nat

datatype variant = PersonBase | LivingPerson | DeceasedPerson (death_date: date)

record person =
  name :: string
  birth_date :: "date option"
  parents :: "ref list"
  children :: "ref list"
  spouse :: "ref option"
  kind :: variant

type_synonym heap = "ref \<Rightarrow> person"

datatype error = NotImplementedError | TypeError

text \<open>\<^verbatim>\<open>PersonBase.__init__\<close> and the constructors of the two subclasses.\<close>

definition PersonBase_init :: "string \<Rightarrow> date option \<Rightarrow> person" where
  "PersonBase_init n b =
     \<lparr>name = n, birth_date = b, parents = [], children = [], spouse = None, kind = PersonBase\<rparr>"

definition new_LivingPerson :: "string \<Rightarrow> date option \<Rightarrow> person" where
  "new_LivingPerson n b = (PersonBase_init n b)\<lparr>kind := LivingPerson\<rparr>"

definition new_DeceasedPerson :: "string \<Rightarrow> date option \<Rightarrow> date \<Rightarrow> person" where
  "new_DeceasedPerson n b d = (PersonBase_init n b)\<lparr>kind := DeceasedPerson d\<rparr>"

text \<open>
  The spouse setter: \<^verbatim>\<open>self._spouse = spouse; spouse._spouse = self\<close>. The second
  assignment reads the store after the first one, so that \<^verbatim>\<open>p.spouse = p\<close> is covered.
  The value assigned is a person object, as in the one call of the program.
\<close>

definition spouse_setter :: "heap \<Rightarrow> ref \<Rightarrow> ref \<Rightarrow> heap" where
  "spouse_setter h self sp =
     (let h1 = h(self := (h self)\<lparr>spouse := Some sp\<rparr>)
      in h1(sp := (h1 sp)\<lparr>spouse := Some self\<rparr>))"

text \<open>
  \<^verbatim>\<open>set_parents\<close> stores the list and then appends \<^verbatim>\<open>self\<close> to the child list of each
  parent, one after the other; \<^verbatim>\<open>set_children\<close> is its mirror image. The source
  stores the list object it is given and appends to list objects in place. Here a
  person holds its lists by value, so a store stands for object graphs in which no list
  object is a field of two persons, and the list argument stands for a list object that
  nothing else refers to. Every call in the program passes a list literal, so this is
  what the program does; a call such as \<^verbatim>\<open>a.set_parents(b.parents)\<close>, after which two
  persons share one list object and later appends reach both, is not described by
  these definitions.
\<close>

definition append_child :: "ref \<Rightarrow> ref \<Rightarrow> heap \<Rightarrow> heap" where
  "append_child self parent h = h(parent := (h parent)\<lparr>children := children (h parent) @ [self]\<rparr>)"

definition append_parent :: "ref \<Rightarrow> ref \<Rightarrow> heap \<Rightarrow> heap" where
  "append_parent self child h = h(child := (h child)\<lparr>parents := parents (h child) @ [self]\<rparr>)"

definition set_parents :: "heap \<Rightarrow> ref \<Rightarrow> ref list \<Rightarrow> heap" where
  "set_parents h self ps = fold (append_child self) ps (h(self := (h self)\<lparr>parents := ps\<rparr>))"

definition set_children :: "heap \<Rightarrow> ref \<Rightarrow> ref list \<Rightarrow> heap" where
  "set_children h self cs = fold (append_parent self) cs (h(self := (h self)\<lparr>children := cs\<rparr>))"

text \<open>
  \<^verbatim>\<open>display_details\<close>: the base class raises, the subclasses format. \<^verbatim>\<open>str(None)\<close> is
  \<^verbatim>\<open>None\<close>.
\<close>

definition str_birth :: "date option \<Rightarrow> string" where
  "str_birth b = (case b of None \<Rightarrow> ''None'' | Some d \<Rightarrow> str_date d)"

definition display_details :: "person \<Rightarrow> error + string" where
  "display_details p =
     (case kind p of
        PersonBase \<Rightarrow> Inl NotImplementedError
      | LivingPerson \<Rightarrow>
          Inr (''Name: '' @ name p @ '', Birth Date: '' @ str_birth (birth_date p) @ '' (Alive)'')
      | DeceasedPerson dd \<Rightarrow>
          Inr (''Name: '' @ name p @ '', Birth Date: '' @ str_birth (birth_date p) @
               '', Death Date: '' @ str_date dd))"

subsection \<open>The registry and the program state\<close>

text \<open>
  \<^verbatim>\<open>FamilyTree.members\<close> is a dictionary from names to persons. A Python dictionary
  iterates in insertion order, and two of the statistics depend on that order, so it is
  an association list (with distinct keys, as a dictionary has). The state of the
  program is the object store together with the registry.
\<close>

record world =
  heap :: heap
  members :: "(string \<times> ref) list"

definition get_person :: "world \<Rightarrow> string \<Rightarrow> ref option" where
  "get_person w n = map_of (members w) n"

text \<open>A person object is always true in \<^verbatim>\<open>if person:\<close>; only \<^verbatim>\<open>None\<close> is false.\<close>

definition get_member_details :: "world \<Rightarrow> string \<Rightarrow> error + string" where
  "get_member_details w n =
     (case get_person w n of
        Some person \<Rightarrow> display_details (heap w person)
      | None \<Rightarrow> Inr ''Person not found.'')"

subsection \<open>Python sets of objects\<close>

text \<open>
  A \<^verbatim>\<open>set\<close> of person objects compares by identity. It is kept as a list without
  repetition, in order of first insertion. The order in which Python iterates a set is
  not specified; no statement below depends on it.
\<close>

definition pyset_add :: "'a \<Rightarrow> 'a list \<Rightarrow> 'a list" where
  "pyset_add x S = (if x \<in> set S then S else S @ [x])"

definition pyset_update :: "'a list \<Rightarrow> 'a list \<Rightarrow> 'a list" where
  "pyset_update xs S = fold pyset_add xs S"

definition pyset_discard :: "'a \<Rightarrow> 'a list \<Rightarrow> 'a list" where
  "pyset_discard x S = removeAll x S"

subsection \<open>Relationship methods\<close>

text \<open>
  Each method of \<^verbatim>\<open>FamilyTree\<close> runs in the program state and returns its result
  together with the state it leaves behind. Local containers (\<^verbatim>\<open>[]\<close>, \<^verbatim>\<open>set()\<close>) are
  new objects of the call and are values here.
\<close>

definition find_parents :: "world \<Rightarrow> ref \<Rightarrow> ref list \<times> world" where
  "find_parents w person = (parents (heap w person), w)"

definition find_grandparents :: "world \<Rightarrow> ref \<Rightarrow> ref list \<times> world" where
  "find_grandparents w person =
     (fold (\<lambda>parent grandparents. grandparents @ parents (heap w parent))
        (parents (heap w person)) [], w)"

definition find_siblings :: "world \<Rightarrow> ref \<Rightarrow> ref list \<times> world" where
  "find_siblings w person =
     (let siblings = fold (\<lambda>parent siblings. pyset_update (children (heap w parent)) siblings)
                       (parents (heap w person)) [];
          siblings = pyset_discard person siblings
      in (siblings, w))"

definition find_cousins :: "world \<Rightarrow> ref \<Rightarrow> ref list \<times> world" where
  "find_cousins w person =
     fold (\<lambda>parent (cousins, w1).
             case find_siblings w1 parent of
               (sibs, w2) \<Rightarrow>
                 (fold (\<lambda>sibling cousins. cousins @ children (heap w2 sibling)) sibs cousins, w2))
       (parents (heap w person)) ([], w)"

definition find_immediate_family :: "world \<Rightarrow> ref \<Rightarrow> ref list \<times> world" where
  "find_immediate_family w person =
     (let immediate_family = pyset_update (parents (heap w person)) []
      in case find_siblings w person of
           (sibs, w1) \<Rightarrow>
             (let immediate_family = pyset_update sibs immediate_family;
                  immediate_family =
                    (case spouse (heap w1 person) of
                       Some s \<Rightarrow> pyset_add s immediate_family
                     | None \<Rightarrow> immediate_family);
                  immediate_family = pyset_update (children (heap w1 person)) immediate_family
              in (immediate_family, w1)))"

definition find_extended_family :: "world \<Rightarrow> ref \<Rightarrow> ref list \<times> world" where
  "find_extended_family w person =
     (case find_immediate_family w person of
        (imm, w1) \<Rightarrow>
          (case fold (\<lambda>parent (ext, w2).
                        case find_siblings w2 parent of
                          (sibs, w3) \<Rightarrow>
                            (fold (\<lambda>sibling ext.
                                     pyset_update (children (heap w3 sibling)) (pyset_add sibling ext))
                               sibs ext, w3))
                  (parents (heap w1 person)) (pyset_update imm [], w1) of
             (extended_family, w4) \<Rightarrow>
               (filter (\<lambda>member. kind (heap w4 member) = LivingPerson) extended_family, w4)))"

subsection \<open>Statistics\<close>

text \<open>
  \<^verbatim>\<open>get_birthdays_calendar\<close> fills a \<^verbatim>\<open>defaultdict(list)\<close>, keyed by (month, day), in
  the order of \<^verbatim>\<open>members.values()\<close>, and returns \<^verbatim>\<open>dict(sorted(items))\<close>. The items
  are pairs of a key and a list of names; Python compares them as tuples, first the
  key, then the list, which is the lexicographic order of the pairs here. The result,
  a dictionary in the order of the sorted items, is the sorted association list.
\<close>

type_synonym calendar = "((int \<times> int) \<times> string list) list"

text \<open>\<^verbatim>\<open>birthday_calendar[key].append(name)\<close> on a \<^verbatim>\<open>defaultdict(list)\<close>.\<close>

definition calendar_append :: "int \<times> int \<Rightarrow> string \<Rightarrow> calendar \<Rightarrow> calendar" where
  "calendar_append k n cal =
     (if k \<in> fst ` set cal
      then map (\<lambda>(k', ns). if k' = k then (k', ns @ [n]) else (k', ns)) cal
      else cal @ [(k, [n])])"

definition calendar_step :: "heap \<Rightarrow> ref \<Rightarrow> calendar \<Rightarrow> calendar" where
  "calendar_step h person cal =
     (case birth_date (h person) of
        None \<Rightarrow> cal
      | Some d \<Rightarrow> calendar_append (month d, day d) (name (h person)) cal)"

definition get_birthdays_calendar :: "world \<Rightarrow> calendar" where
  "get_birthdays_calendar w = sort (fold (calendar_step (heap w)) (map snd (members w)) [])"

text \<open>
  \<^verbatim>\<open>calculate_average_age\<close>: the loop keeps \<^verbatim>\<open>total_age\<close> and \<^verbatim>\<open>count\<close>. Subtracting
  \<^verbatim>\<open>None\<close> from a date raises \<^verbatim>\<open>TypeError\<close>. \<^verbatim>\<open>//\<close> rounds towards minus infinity,
  as \<open>div\<close> on \<open>int\<close> does. The quotient \<^verbatim>\<open>total_age / count\<close> is kept exact, as a
  rational number.
\<close>

fun average_age_loop :: "heap \<Rightarrow> ref list \<Rightarrow> int \<times> int \<Rightarrow> error + (int \<times> int)" where
  "average_age_loop h [] (total_age, cnt) = Inr (total_age, cnt)"
| "average_age_loop h (person # rest) (total_age, cnt) =
     (case kind (h person) of
        DeceasedPerson dd \<Rightarrow>
          (case birth_date (h person) of
             None \<Rightarrow> Inl TypeError
           | Some b \<Rightarrow>
               average_age_loop h rest (total_age + days_between dd b div 365, cnt + 1))
      | _ \<Rightarrow> average_age_loop h rest (total_age, cnt))"

definition calculate_average_age :: "world \<Rightarrow> error + rat" where
  "calculate_average_age w =
     (case average_age_loop (heap w) (map snd (members w)) (0, 0) of
        Inl e \<Rightarrow> Inl e
      | Inr (total_age, cnt) \<Rightarrow>
          Inr (if 0 < cnt then of_int total_age / of_int cnt else 0))"

subsection \<open>The seed data of the program\<close>

text \<open>
  The module creates eight persons, links them and fills the registry. The eight
  objects get the references 0 to 7; a reference at which nothing was created holds an
  object without name and without links.
\<close>

definition cornelia :: ref where "cornelia = 0"
definition otto :: ref where "otto = 1"
definition anna :: ref where "anna = 2"
definition raj :: ref where "raj = 3"
definition maria :: ref where "maria = 4"
definition hans :: ref where "hans = 5"
definition child1 :: ref where "child1 = 6"
definition child2 :: ref where "child2 = 7"

definition init_heap :: heap where
  "init_heap = (\<lambda>r. PersonBase_init [] None)"

definition created :: heap where
  "created = init_heap
     (cornelia := new_LivingPerson ''Cornelia Emmersohn'' (Some (mk_date 1968 5 20)),
      otto := new_DeceasedPerson ''Otto Emmersohn'' (Some (mk_date 1965 8 15)) (mk_date 2020 4 10),
      anna := new_DeceasedPerson ''Anna Singh'' (Some (mk_date 1945 4 10)) (mk_date 2015 3 20),
      raj := new_DeceasedPerson ''Raj Singh'' (Some (mk_date 1942 6 5)) (mk_date 2010 11 5),
      maria := new_DeceasedPerson (''Maria M'' @ [CHR 0xC3, CHR 0xBC] @ ''ller'')
                 (Some (mk_date 1943 6 5)) (mk_date 2005 9 15),
      hans := new_DeceasedPerson ''Hans Emmersohn'' (Some (mk_date 1940 3 22)) (mk_date 2012 7 10),
      child1 := new_LivingPerson ''Lucas Emmersohn'' (Some (mk_date 1992 11 12)),
      child2 := new_LivingPerson ''Emma Emmersohn'' (Some (mk_date 1995 2 28)))"

definition seed_heap :: heap where
  "seed_heap =
     (let h = set_parents created cornelia [anna, raj];
          h = set_parents h otto [maria, hans];
          h = set_children h cornelia [child1, child2];
          h = set_children h otto [child1, child2];
          h = spouse_setter h cornelia otto
      in h)"

definition family_tree :: world where
  "family_tree =
     \<lparr>heap = seed_heap,
      members = map (\<lambda>r. (name (seed_heap r), r))
                  [cornelia, otto, anna, raj, maria, hans, child1, child2]\<rparr>"

subsection \<open>Sequences of link operations and the link invariants\<close>

text \<open>
  The three operations that establish links, as data, so that statements can speak
  about every sequence of them.
\<close>

datatype link_op = SetParents ref "ref list" | SetChildren ref "ref list" | SetSpouse ref ref

fun apply_link :: "heap \<Rightarrow> link_op \<Rightarrow> heap" where
  "apply_link h (SetParents p ps) = set_parents h p ps"
| "apply_link h (SetChildren p cs) = set_children h p cs"
| "apply_link h (SetSpouse p s) = spouse_setter h p s"

definition run_links :: "heap \<Rightarrow> link_op list \<Rightarrow> heap" where
  "run_links h ops = foldl apply_link h ops"

text \<open>The link operations of the module, in the order in which it performs them.\<close>

definition seed_links :: "link_op list" where
  "seed_links =
     [SetParents cornelia [anna, raj], SetParents otto [maria, hans],
      SetChildren cornelia [child1, child2], SetChildren otto [child1, child2],
      SetSpouse cornelia otto]"

text \<open>Spouse symmetry: whoever has a spouse is the spouse of that spouse.\<close>

definition spouse_symmetric :: "heap \<Rightarrow> bool" where
  "spouse_symmetric h = (\<forall>p s. spouse (h p) = Some s \<longrightarrow> spouse (h s) = Some p)"

text \<open>
  A person is free for a partner when the person has no spouse or already has that
  partner as spouse. A sequence of operations marries only free persons when this holds
  of both sides at each spouse assignment, in the store as it is at that moment.
\<close>

definition free_for :: "heap \<Rightarrow> ref \<Rightarrow> ref \<Rightarrow> bool" where
  "free_for h p s = (spouse (h p) = None \<or> spouse (h p) = Some s)"

fun marries_free :: "heap \<Rightarrow> link_op list \<Rightarrow> bool" where
  "marries_free h [] = True"
| "marries_free h (SetSpouse p s # ops) =
     (free_for h p s \<and> free_for h s p \<and> marries_free (spouse_setter h p s) ops)"
| "marries_free h (x # ops) = marries_free (apply_link h x) ops"

text \<open>Back links: whoever lists a parent is listed among that parent's children.\<close>

definition back_linked :: "heap \<Rightarrow> bool" where
  "back_linked h = (\<forall>p. \<forall>parent \<in> set (parents (h p)). p \<in> set (children (h parent)))"

text \<open>The references stored in some link field of some object of the store.\<close>

definition linked :: "heap \<Rightarrow> ref set" where
  "linked h =
     {r. \<exists>q. r \<in> set (parents (h q)) \<or> r \<in> set (children (h q)) \<or> spouse (h q) = Some r}"

text \<open>Child links: whoever is listed as a child lists that parent.\<close>

definition child_linked :: "heap \<Rightarrow> bool" where
  "child_linked h = (\<forall>parent. \<forall>c \<in> set (children (h parent)). parent \<in> set (parents (h c)))"

subsection \<open>A family in which a cousin is reached twice\<close>

text \<open>
  Two grandparents (10 and 11) with the children 12 and 14, and 13 and 14: person 14
  is a half sibling of 12 and of 13. Person 16 has the parents 12 and 13, and person
  14 has the child 15. Built with the link operations of the program, seven new
  objects at the references 10 to 16.
\<close>

definition cousin_heap :: heap where
  "cousin_heap =
     (let h = set_children init_heap 10 [12, 14];
          h = set_children h 11 [13, 14];
          h = set_children h 14 [15];
          h = set_parents h 16 [12, 13]
      in h)"

definition cousin_world :: world where
  "cousin_world = \<lparr>heap = cousin_heap, members = []\<rparr>"

subsection \<open>The statistics, as the specification words them\<close>

text \<open>
  The deceased members in registry order, and the age at death of a deceased person
  with a birth date: the days between birth and death, divided by 365 and rounded down.
\<close>

definition is_deceased :: "person \<Rightarrow> bool" where
  "is_deceased p = (case kind p of DeceasedPerson dd \<Rightarrow> True | _ \<Rightarrow> False)"

definition deceased_members :: "world \<Rightarrow> ref list" where
  "deceased_members w = filter (\<lambda>r. is_deceased (heap w r)) (map snd (members w))"

definition age_at_death :: "person \<Rightarrow> int" where
  "age_at_death p =
     (case kind p of
        DeceasedPerson dd \<Rightarrow>
          (case birth_date p of Some b \<Rightarrow> days_between dd b div 365 | None \<Rightarrow> 0)
      | _ \<Rightarrow> 0)"

definition mean_age_at_death :: "world \<Rightarrow> rat" where
  "mean_age_at_death w =
     (if deceased_members w = [] then 0
      else of_int (sum_list (map (\<lambda>r. age_at_death (heap w r)) (deceased_members w))) /
           of_nat (length (deceased_members w)))"

text \<open>
  The birthday key of a person, and the names of the members born on a key, in registry
  order.
\<close>

definition birthday_key :: "person \<Rightarrow> (int \<times> int) option" where
  "birthday_key p = map_option (\<lambda>d. (month d, day d)) (birth_date p)"

definition names_on :: "heap \<Rightarrow> ref list \<Rightarrow> int \<times> int \<Rightarrow> string list" where
  "names_on h rs k = map (\<lambda>r. name (h r)) (filter (\<lambda>r. birthday_key (h r) = Some k) rs)"

text \<open>The names a calendar holds under a key; none when the key is absent.\<close>

definition names_at :: "calendar \<Rightarrow> int \<times> int \<Rightarrow> string list" where
  "names_at cal k = (case map_of cal k of None \<Rightarrow> [] | Some ns \<Rightarrow> ns)"

section \<open>Properties\<close>

subsection \<open>Sets as lists\<close>

lemma set_pyset_add: "set (pyset_add x S) = insert x (set S)"
  by (auto simp: pyset_add_def)

lemma distinct_pyset_add: "distinct S \<Longrightarrow> distinct (pyset_add x S)"
  by (simp add: pyset_add_def)

lemma set_pyset_update: "set (pyset_update xs S) = set xs \<union> set S"
  unfolding pyset_update_def by (induction xs arbitrary: S) (auto simp: set_pyset_add)

lemma distinct_pyset_update: "distinct S \<Longrightarrow> distinct (pyset_update xs S)"
  unfolding pyset_update_def by (induction xs arbitrary: S) (auto simp: distinct_pyset_add)

lemma set_pyset_discard: "set (pyset_discard x S) = set S - {x}"
  by (simp add: pyset_discard_def)

lemma distinct_pyset_discard: "distinct S \<Longrightarrow> distinct (pyset_discard x S)"
  by (simp add: pyset_discard_def distinct_removeAll)

subsection \<open>What the relationship methods return\<close>

lemma set_gather_children:
  "set (fold (\<lambda>parent siblings. pyset_update (children (h parent)) siblings) ps S) =
     set S \<union> (\<Union>parent \<in> set ps. set (children (h parent)))"
  by (induction ps arbitrary: S) (auto simp: set_pyset_update)

lemma distinct_gather_children:
  "distinct S \<Longrightarrow>
   distinct (fold (\<lambda>parent siblings. pyset_update (children (h parent)) siblings) ps S)"
  by (induction ps arbitrary: S) (auto simp: distinct_pyset_update)

lemma find_siblings_snd: "snd (find_siblings w p) = w"
  by (simp add: find_siblings_def Let_def)

lemma set_find_siblings:
  "set (fst (find_siblings w p)) =
     (\<Union>parent \<in> set (parents (heap w p)). set (children (heap w parent))) - {p}"
  by (simp add: find_siblings_def Let_def set_pyset_discard set_gather_children)

lemma distinct_find_siblings: "distinct (fst (find_siblings w p))"
  by (simp add: find_siblings_def Let_def distinct_pyset_discard distinct_gather_children)

lemma find_siblings_pair: "find_siblings w p = (fst (find_siblings w p), w)"
  by (metis find_siblings_snd prod.collapse)

lemma fold_extend: "fold (\<lambda>x acc. acc @ f x) xs acc = acc @ concat (map f xs)"
  by (induction xs arbitrary: acc) auto

lemma find_cousins_eq:
  "find_cousins w p =
     (concat (map (\<lambda>parent. concat (map (\<lambda>sibling. children (heap w sibling))
                                      (fst (find_siblings w parent))))
                (parents (heap w p))), w)"
proof -
  have step: "fold (\<lambda>parent (cousins, w1).
             case find_siblings w1 parent of
               (sibs, w2) \<Rightarrow>
                 (cousins @ concat (map (\<lambda>sibling. children (heap w2 sibling)) sibs), w2))
       ps (acc, w) =
     (acc @ concat (map (\<lambda>parent. concat (map (\<lambda>sibling. children (heap w sibling))
                                      (fst (find_siblings w parent)))) ps), w)" for ps acc
  proof (induction ps arbitrary: acc)
    case Nil
    show ?case by simp
  next
    case (Cons a ps)
    obtain sibs where s: "find_siblings w a = (sibs, w)"
      using find_siblings_pair by blast
    show ?case by (simp add: s Cons.IH)
  qed
  show ?thesis unfolding find_cousins_def fold_extend
    using step [of "parents (heap w p)" "[]"] by simp
qed

lemma find_immediate_family_snd: "snd (find_immediate_family w p) = w"
  by (simp add: find_immediate_family_def Let_def find_siblings_snd split: prod.splits option.splits)
     (metis find_siblings_snd snd_conv)

lemma set_find_immediate_family:
  "set (fst (find_immediate_family w p)) =
     set (parents (heap w p)) \<union> set (fst (find_siblings w p)) \<union> set_option (spouse (heap w p)) \<union>
     set (children (heap w p))"
proof -
  obtain sibs where s: "find_siblings w p = (sibs, w)"
    using find_siblings_pair by blast
  show ?thesis
    by (auto simp: find_immediate_family_def Let_def s set_pyset_update set_pyset_add
        split: option.splits)
qed

lemma distinct_find_immediate_family: "distinct (fst (find_immediate_family w p))"
proof -
  obtain sibs where s: "find_siblings w p = (sibs, w)"
    using find_siblings_pair by blast
  show ?thesis
    by (auto simp: find_immediate_family_def Let_def s distinct_pyset_update distinct_pyset_add
        split: option.splits)
qed

lemma set_gather_aunts:
  "set (fold (\<lambda>sibling ext. pyset_update (children (h sibling)) (pyset_add sibling ext)) sibs ext) =
     set ext \<union> (\<Union>sibling \<in> set sibs. insert sibling (set (children (h sibling))))"
  by (induction sibs arbitrary: ext) (auto simp: set_pyset_update set_pyset_add)

lemma distinct_gather_aunts:
  "distinct ext \<Longrightarrow>
   distinct (fold (\<lambda>sibling ext. pyset_update (children (h sibling)) (pyset_add sibling ext)) sibs ext)"
  by (induction sibs arbitrary: ext) (auto simp: distinct_pyset_update distinct_pyset_add)

lemma gather_extended:
  "\<exists>E. fold (\<lambda>parent (ext, w2).
                case find_siblings w2 parent of
                  (sibs, w3) \<Rightarrow>
                    (fold (\<lambda>sibling ext.
                             pyset_update (children (heap w3 sibling)) (pyset_add sibling ext))
                       sibs ext, w3))
          ps (ext, w) = (E, w) \<and>
        set E = set ext \<union>
          (\<Union>parent \<in> set ps. \<Union>sibling \<in> set (fst (find_siblings w parent)).
              insert sibling (set (children (heap w sibling)))) \<and>
        (distinct ext \<longrightarrow> distinct E)"
proof (induction ps arbitrary: ext)
  case Nil
  show ?case by simp
next
  case (Cons a ps)
  obtain sibs where s: "find_siblings w a = (sibs, w)"
    using find_siblings_pair by blast
  let ?ext = "fold (\<lambda>sibling ext. pyset_update (children (heap w sibling)) (pyset_add sibling ext))
                sibs ext"
  from Cons.IH [of ?ext] obtain E where
    E: "fold (\<lambda>parent (ext, w2).
                case find_siblings w2 parent of
                  (sibs, w3) \<Rightarrow>
                    (fold (\<lambda>sibling ext.
                             pyset_update (children (heap w3 sibling)) (pyset_add sibling ext))
                       sibs ext, w3))
          ps (?ext, w) = (E, w)"
    and setE: "set E = set ?ext \<union>
          (\<Union>parent \<in> set ps. \<Union>sibling \<in> set (fst (find_siblings w parent)).
              insert sibling (set (children (heap w sibling))))"
    and distE: "distinct ?ext \<longrightarrow> distinct E"
    by blast
  have "set E = set ext \<union>
          (\<Union>parent \<in> set (a # ps). \<Union>sibling \<in> set (fst (find_siblings w parent)).
              insert sibling (set (children (heap w sibling))))"
    by (simp add: setE set_gather_aunts s Un_assoc)
  moreover have "distinct ext \<longrightarrow> distinct E"
    using distE by (simp add: distinct_gather_aunts)
  ultimately show ?case
    using E by (simp add: s)
qed

lemma find_extended_family_parts:
  "\<exists>E. find_extended_family w p = (filter (\<lambda>member. kind (heap w member) = LivingPerson) E, w) \<and>
        distinct E \<and>
        set E = set (fst (find_immediate_family w p)) \<union>
          (\<Union>parent \<in> set (parents (heap w p)). \<Union>sibling \<in> set (fst (find_siblings w parent)).
              insert sibling (set (children (heap w sibling))))"
proof -
  obtain imm where i: "find_immediate_family w p = (imm, w)"
    by (metis find_immediate_family_snd prod.collapse)
  have d: "distinct (pyset_update imm [])"
    by (simp add: distinct_pyset_update)
  from gather_extended [where w = w and ps = "parents (heap w p)" and ext = "pyset_update imm []"]
  obtain E where
    E: "fold (\<lambda>parent (ext, w2).
                case find_siblings w2 parent of
                  (sibs, w3) \<Rightarrow>
                    (fold (\<lambda>sibling ext.
                             pyset_update (children (heap w3 sibling)) (pyset_add sibling ext))
                       sibs ext, w3))
          (parents (heap w p)) (pyset_update imm [], w) = (E, w)"
    and setE: "set E = set (pyset_update imm []) \<union>
          (\<Union>parent \<in> set (parents (heap w p)). \<Union>sibling \<in> set (fst (find_siblings w parent)).
              insert sibling (set (children (heap w sibling))))"
    and distE: "distinct (pyset_update imm []) \<longrightarrow> distinct E"
    by blast
  have "find_extended_family w p = (filter (\<lambda>member. kind (heap w member) = LivingPerson) E, w)"
    by (simp add: find_extended_family_def i E)
  moreover have "distinct E" using distE d by simp
  moreover have "set E = set (fst (find_immediate_family w p)) \<union>
          (\<Union>parent \<in> set (parents (heap w p)). \<Union>sibling \<in> set (fst (find_siblings w parent)).
              insert sibling (set (children (heap w sibling))))"
    by (simp add: setE i set_pyset_update)
  ultimately show ?thesis by blast
qed

lemma find_extended_family_snd: "snd (find_extended_family w p) = w"
  using find_extended_family_parts [of w p] by auto

lemma set_find_extended_family:
  "set (fst (find_extended_family w p)) =
     {m \<in> set (fst (find_immediate_family w p)) \<union>
           (\<Union>parent \<in> set (parents (heap w p)). \<Union>sibling \<in> set (fst (find_siblings w parent)).
              insert sibling (set (children (heap w sibling)))).
        kind (heap w m) = LivingPerson}"
proof -
  from find_extended_family_parts [of w p] obtain E where
    "find_extended_family w p = (filter (\<lambda>member. kind (heap w member) = LivingPerson) E, w)"
    and "set E = set (fst (find_immediate_family w p)) \<union>
          (\<Union>parent \<in> set (parents (heap w p)). \<Union>sibling \<in> set (fst (find_siblings w parent)).
              insert sibling (set (children (heap w sibling))))"
    by blast
  then show ?thesis by auto
qed

lemma distinct_find_extended_family: "distinct (fst (find_extended_family w p))"
  using find_extended_family_parts [of w p] by auto

lemma mset_concat_map: "mset (concat (map f xs)) = (\<Sum>x \<in># mset xs. mset (f x))"
  by (induction xs) auto

lemma find_grandparents_eq:
  "find_grandparents w p =
     (concat (map (\<lambda>parent. parents (heap w parent)) (parents (heap w p))), w)"
  by (simp add: find_grandparents_def fold_extend)

lemma linked_parents: "set (parents (h q)) \<subseteq> linked h"
  by (auto simp: linked_def)

lemma linked_children: "set (children (h q)) \<subseteq> linked h"
  by (auto simp: linked_def)

lemma linked_spouse: "set_option (spouse (h q)) \<subseteq> linked h"
  by (auto simp: linked_def)

lemma siblings_linked: "set (fst (find_siblings w p)) \<subseteq> linked (heap w)"
  using linked_children [of "heap w"] by (auto simp: set_find_siblings)

lemma immediate_linked: "set (fst (find_immediate_family w p)) \<subseteq> linked (heap w)"
  using siblings_linked [of w p] linked_parents [of "heap w" p] linked_children [of "heap w" p]
    linked_spouse [of "heap w" p]
  by (simp add: set_find_immediate_family)

subsection \<open>What the link operations write\<close>

lemma spouse_setter_self: "spouse_setter h p c p = (h p)\<lparr>spouse := Some c\<rparr>"
  by (simp add: spouse_setter_def Let_def)

lemma spouse_setter_partner: "spouse_setter h p c c = (h c)\<lparr>spouse := Some p\<rparr>"
  by (simp add: spouse_setter_def Let_def)

lemma spouse_setter_other: "r \<noteq> p \<Longrightarrow> r \<noteq> c \<Longrightarrow> spouse_setter h p c r = h r"
  by (simp add: spouse_setter_def Let_def)

lemma spouse_setter_spouse:
  "spouse (spouse_setter h p c r) =
     (if r = c then Some p else if r = p then Some c else spouse (h r))"
  by (simp add: spouse_setter_def Let_def)

lemma spouse_setter_symmetric:
  assumes "spouse_symmetric h" "free_for h p s" "free_for h s p"
  shows "spouse_symmetric (spouse_setter h p s)"
  using assms unfolding spouse_symmetric_def free_for_def spouse_setter_spouse
  by (metis option.distinct(1) option.inject)

lemma fold_append_child:
  "parents (fold (append_child self) ps h r) = parents (h r) \<and>
   spouse (fold (append_child self) ps h r) = spouse (h r) \<and>
   set (children (fold (append_child self) ps h r)) =
     set (children (h r)) \<union> (if r \<in> set ps then {self} else {})"
  by (induction ps arbitrary: h) (auto simp: append_child_def)

lemma fold_append_parent:
  "children (fold (append_parent self) cs h r) = children (h r) \<and>
   spouse (fold (append_parent self) cs h r) = spouse (h r) \<and>
   set (parents (fold (append_parent self) cs h r)) =
     set (parents (h r)) \<union> (if r \<in> set cs then {self} else {})"
  by (induction cs arbitrary: h) (auto simp: append_parent_def)

lemma set_parents_fields:
  "parents (set_parents h p ps r) = (if r = p then ps else parents (h r))"
  "spouse (set_parents h p ps r) = spouse (h r)"
  "set (children (set_parents h p ps r)) =
     set (children (h r)) \<union> (if r \<in> set ps then {p} else {})"
  by (simp_all add: set_parents_def fold_append_child)

lemma set_children_fields:
  "children (set_children h p cs r) = (if r = p then cs else children (h r))"
  "spouse (set_children h p cs r) = spouse (h r)"
  "set (parents (set_children h p cs r)) =
     set (parents (h r)) \<union> (if r \<in> set cs then {p} else {})"
  by (simp_all add: set_children_def fold_append_parent)

lemma spouse_setter_links:
  "parents (spouse_setter h p c r) = parents (h r)"
  "children (spouse_setter h p c r) = children (h r)"
  by (simp_all add: spouse_setter_def Let_def)

lemma set_parents_symmetric: "spouse_symmetric (set_parents h p ps) = spouse_symmetric h"
  by (simp add: spouse_symmetric_def set_parents_fields)

lemma set_children_symmetric: "spouse_symmetric (set_children h p cs) = spouse_symmetric h"
  by (simp add: spouse_symmetric_def set_children_fields)

lemma run_links_symmetric:
  "spouse_symmetric h \<Longrightarrow> marries_free h ops \<Longrightarrow> spouse_symmetric (run_links h ops)"
  unfolding run_links_def
proof (induction ops arbitrary: h)
  case Nil
  then show ?case by simp
next
  case (Cons x ops)
  show ?case
  proof (cases x)
    case (SetParents p ps)
    with Cons.prems Cons.IH [of "set_parents h p ps"] show ?thesis
      by (simp add: set_parents_symmetric)
  next
    case (SetChildren p cs)
    with Cons.prems Cons.IH [of "set_children h p cs"] show ?thesis
      by (simp add: set_children_symmetric)
  next
    case (SetSpouse p s)
    with Cons.prems Cons.IH [of "spouse_setter h p s"] show ?thesis
      by (simp add: spouse_setter_symmetric)
  qed
qed

text \<open>
  The next three lemmas speak about stores with unshared lists and calls with a new
  list, as the definitions do. They carry the invariant through the link operations of
  the seed data.
\<close>

lemma set_parents_back_linked: "back_linked h \<Longrightarrow> back_linked (set_parents h p ps)"
  unfolding back_linked_def by (auto simp: set_parents_fields)

lemma set_children_back_linked:
  "back_linked h \<Longrightarrow> \<forall>q. p \<in> set (parents (h q)) \<longrightarrow> q \<in> set cs \<Longrightarrow>
   back_linked (set_children h p cs)"
  unfolding back_linked_def by (auto simp: set_children_fields split: if_splits)

lemma spouse_setter_back_linked: "back_linked (spouse_setter h p c) = back_linked h"
  by (simp add: back_linked_def spouse_setter_links)

subsection \<open>What the statistics compute\<close>

lemma is_deceased_iff: "is_deceased p \<longleftrightarrow> (\<exists>dd. kind p = DeceasedPerson dd)"
  by (cases "kind p") (simp_all add: is_deceased_def)

lemma average_age_loop_eq:
  "average_age_loop h rs (t, c) =
     (if \<exists>r \<in> set rs. is_deceased (h r) \<and> birth_date (h r) = None then Inl TypeError
      else Inr (t + sum_list (map (\<lambda>r. age_at_death (h r)) (filter (\<lambda>r. is_deceased (h r)) rs)),
                c + int (length (filter (\<lambda>r. is_deceased (h r)) rs))))"
proof (induction rs arbitrary: t c)
  case Nil
  show ?case by simp
next
  case (Cons r rs)
  show ?case
  proof (cases "kind (h r)")
    case PersonBase
    then show ?thesis by (simp add: Cons.IH is_deceased_def)
  next
    case LivingPerson
    then show ?thesis by (simp add: Cons.IH is_deceased_def)
  next
    case (DeceasedPerson dd)
    show ?thesis
    proof (cases "birth_date (h r)")
      case None
      with DeceasedPerson show ?thesis by (simp add: is_deceased_def)
    next
      case (Some b)
      with DeceasedPerson show ?thesis
        by (simp add: Cons.IH is_deceased_def age_at_death_def)
    qed
  qed
qed

lemma calculate_average_age_eq:
  "calculate_average_age w =
     (if \<exists>r \<in> set (deceased_members w). birth_date (heap w r) = None then Inl TypeError
      else Inr (mean_age_at_death w))"
  by (auto simp: calculate_average_age_def average_age_loop_eq deceased_members_def
      mean_age_at_death_def)

lemma map_of_relabel:
  "map_of (map (\<lambda>(k', ns). if k' = k then (k', ns @ [n]) else (k', ns)) cal) k' =
     (if k' = k then map_option (\<lambda>ns. ns @ [n]) (map_of cal k') else map_of cal k')"
  by (induction cal) auto

lemma fst_relabel:
  "map fst (map (\<lambda>(k', ns). if k' = k then (k', ns @ [n]) else (k', ns)) cal) = map fst cal"
  by (induction cal) auto

lemma calendar_append_keys:
  "distinct (map fst (calendar_append k n cal))" if "distinct (map fst cal)"
proof (cases "k \<in> fst ` set cal")
  case True
  then have "calendar_append k n cal =
      map (\<lambda>(k', ns). if k' = k then (k', ns @ [n]) else (k', ns)) cal"
    by (simp add: calendar_append_def)
  then show ?thesis
    using that by (simp only: fst_relabel)
next
  case False
  then show ?thesis
    using that by (simp add: calendar_append_def)
qed

lemma calendar_append_map_of:
  "map_of (calendar_append k n cal) k' =
     (if k' = k then Some (names_at cal k @ [n]) else map_of cal k')"
proof (cases "k \<in> fst ` set cal")
  case True
  then obtain ns where "map_of cal k = Some ns"
    by (metis domD dom_map_of_conv_image_fst)
  with True show ?thesis
    by (simp add: calendar_append_def map_of_relabel names_at_def)
next
  case False
  then have "map_of cal k = None"
    by (simp add: map_of_eq_None_iff)
  with False show ?thesis
    by (simp add: calendar_append_def names_at_def map_add_def split: option.splits)
qed

lemma names_on_Cons:
  "names_on h (r # rs) k =
     (if birthday_key (h r) = Some k then name (h r) # names_on h rs k else names_on h rs k)"
  by (simp add: names_on_def)

lemma calendar_step_keys:
  "distinct (map fst cal) \<Longrightarrow> distinct (map fst (calendar_step h r cal))"
  by (simp add: calendar_step_def calendar_append_keys split: option.splits)

lemma calendar_step_map_of:
  "map_of (calendar_step h r cal) k =
     (if birthday_key (h r) = Some k then Some (names_at cal k @ [name (h r)]) else map_of cal k)"
  by (auto simp: calendar_step_def calendar_append_map_of birthday_key_def split: option.splits)

lemma fold_calendar_keys:
  "distinct (map fst cal) \<Longrightarrow> distinct (map fst (fold (calendar_step h) rs cal))"
  by (induction rs arbitrary: cal) (simp_all add: calendar_step_keys)

lemma fold_calendar_map_of:
  "map_of (fold (calendar_step h) rs cal) k =
     (if names_on h rs k = [] then map_of cal k else Some (names_at cal k @ names_on h rs k))"
proof (induction rs arbitrary: cal)
  case Nil
  show ?case by (simp add: names_on_def)
next
  case (Cons r rs)
  show ?case
    by (simp add: Cons.IH calendar_step_map_of names_on_Cons names_at_def)
qed

lemma fst_le_of_le: "(x :: (int \<times> int) \<times> string list) \<le> y \<Longrightarrow> fst x \<le> fst y"
  unfolding less_eq_prod_def [of x y] using order.strict_implies_order by blast

lemma sorted_keys_of_sorted:
  "sorted (xs :: calendar) \<Longrightarrow> sorted (map fst xs)"
  by (induction xs) (auto simp: fst_le_of_le)

lemma calendar_keys_sorted: "sorted (map fst (get_birthdays_calendar w))"
  by (simp add: get_birthdays_calendar_def sorted_keys_of_sorted)

lemma calendar_keys_distinct: "distinct (map fst (get_birthdays_calendar w))"
proof -
  let ?cal = "fold (calendar_step (heap w)) (map snd (members w)) []"
  have "mset (map fst (sort ?cal)) = mset (map fst ?cal)"
    by simp
  moreover have "distinct (map fst ?cal)"
    by (simp add: fold_calendar_keys)
  ultimately show ?thesis
    unfolding get_birthdays_calendar_def using mset_eq_imp_distinct_iff by blast
qed

lemma calendar_map_of:
  "map_of (get_birthdays_calendar w) k =
     (if names_on (heap w) (map snd (members w)) k = [] then None
      else Some (names_on (heap w) (map snd (members w)) k))"
proof -
  let ?cal = "fold (calendar_step (heap w)) (map snd (members w)) []"
  have d: "distinct (map fst ?cal)"
    by (simp add: fold_calendar_keys)
  have "map_of (sort ?cal) = map_of ?cal"
    by (rule map_of_inject_set [THEN iffD2]) (use d calendar_keys_distinct [of w] in
        \<open>simp_all add: get_birthdays_calendar_def\<close>)
  then show ?thesis
    by (simp add: get_birthdays_calendar_def fold_calendar_map_of names_at_def)
qed

subsection \<open>The seed data, evaluated\<close>

lemmas ref_defs = cornelia_def otto_def anna_def raj_def maria_def hans_def child1_def child2_def

lemmas seed_defs =
  seed_heap_def created_def init_heap_def set_parents_def set_children_def spouse_setter_def
  append_child_def append_parent_def new_LivingPerson_def new_DeceasedPerson_def
  PersonBase_init_def Let_def ref_defs

lemma seed_cornelia:
  "seed_heap cornelia =
     \<lparr>name = ''Cornelia Emmersohn'', birth_date = Some (mk_date 1968 5 20),
      parents = [anna, raj], children = [child1, child2], spouse = Some otto,
      kind = LivingPerson\<rparr>"
  by (simp add: seed_defs)

lemma seed_otto:
  "seed_heap otto =
     \<lparr>name = ''Otto Emmersohn'', birth_date = Some (mk_date 1965 8 15),
      parents = [maria, hans], children = [child1, child2], spouse = Some cornelia,
      kind = DeceasedPerson (mk_date 2020 4 10)\<rparr>"
  by (simp add: seed_defs)

lemma seed_anna:
  "seed_heap anna =
     \<lparr>name = ''Anna Singh'', birth_date = Some (mk_date 1945 4 10),
      parents = [], children = [cornelia], spouse = None,
      kind = DeceasedPerson (mk_date 2015 3 20)\<rparr>"
  by (simp add: seed_defs)

lemma seed_raj:
  "seed_heap raj =
     \<lparr>name = ''Raj Singh'', birth_date = Some (mk_date 1942 6 5),
      parents = [], children = [cornelia], spouse = None,
      kind = DeceasedPerson (mk_date 2010 11 5)\<rparr>"
  by (simp add: seed_defs)

lemma seed_maria:
  "seed_heap maria =
     \<lparr>name = ''Maria M'' @ [CHR 0xC3, CHR 0xBC] @ ''ller'', birth_date = Some (mk_date 1943 6 5),
      parents = [], children = [otto], spouse = None,
      kind = DeceasedPerson (mk_date 2005 9 15)\<rparr>"
  by (simp add: seed_defs)

lemma seed_hans:
  "seed_heap hans =
     \<lparr>name = ''Hans Emmersohn'', birth_date = Some (mk_date 1940 3 22),
      parents = [], children = [otto], spouse = None,
      kind = DeceasedPerson (mk_date 2012 7 10)\<rparr>"
  by (simp add: seed_defs)

lemma seed_child1:
  "seed_heap child1 =
     \<lparr>name = ''Lucas Emmersohn'', birth_date = Some (mk_date 1992 11 12),
      parents = [cornelia, otto], children = [], spouse = None, kind = LivingPerson\<rparr>"
  by (simp add: seed_defs)

lemma seed_child2:
  "seed_heap child2 =
     \<lparr>name = ''Emma Emmersohn'', birth_date = Some (mk_date 1995 2 28),
      parents = [cornelia, otto], children = [], spouse = None, kind = LivingPerson\<rparr>"
  by (simp add: seed_defs)

lemma seed_other: "7 < r \<Longrightarrow> seed_heap r = PersonBase_init [] None"
  by (simp add: seed_defs)

lemmas seed_persons =
  seed_cornelia seed_otto seed_anna seed_raj seed_maria seed_hans seed_child1 seed_child2

lemma ref_neq:
  "cornelia \<noteq> otto" "cornelia \<noteq> anna" "cornelia \<noteq> raj" "cornelia \<noteq> maria" "cornelia \<noteq> hans" "cornelia \<noteq> child1" "cornelia \<noteq> child2"
  "otto \<noteq> cornelia" "otto \<noteq> anna" "otto \<noteq> raj" "otto \<noteq> maria" "otto \<noteq> hans" "otto \<noteq> child1" "otto \<noteq> child2"
  "anna \<noteq> cornelia" "anna \<noteq> otto" "anna \<noteq> raj" "anna \<noteq> maria" "anna \<noteq> hans" "anna \<noteq> child1" "anna \<noteq> child2"
  "raj \<noteq> cornelia" "raj \<noteq> otto" "raj \<noteq> anna" "raj \<noteq> maria" "raj \<noteq> hans" "raj \<noteq> child1" "raj \<noteq> child2"
  "maria \<noteq> cornelia" "maria \<noteq> otto" "maria \<noteq> anna" "maria \<noteq> raj" "maria \<noteq> hans" "maria \<noteq> child1" "maria \<noteq> child2"
  "hans \<noteq> cornelia" "hans \<noteq> otto" "hans \<noteq> anna" "hans \<noteq> raj" "hans \<noteq> maria" "hans \<noteq> child1" "hans \<noteq> child2"
  "child1 \<noteq> cornelia" "child1 \<noteq> otto" "child1 \<noteq> anna" "child1 \<noteq> raj" "child1 \<noteq> maria" "child1 \<noteq> hans" "child1 \<noteq> child2"
  "child2 \<noteq> cornelia" "child2 \<noteq> otto" "child2 \<noteq> anna" "child2 \<noteq> raj" "child2 \<noteq> maria" "child2 \<noteq> hans" "child2 \<noteq> child1"
  by (simp_all add: ref_defs)

lemma family_tree_heap: "heap family_tree = seed_heap"
  by (simp add: family_tree_def)

lemma family_tree_members:
  "members family_tree =
     [(''Cornelia Emmersohn'', cornelia), (''Otto Emmersohn'', otto), (''Anna Singh'', anna),
      (''Raj Singh'', raj), (''Maria M'' @ [CHR 0xC3, CHR 0xBC] @ ''ller'', maria),
      (''Hans Emmersohn'', hans), (''Lucas Emmersohn'', child1), (''Emma Emmersohn'', child2)]"
  by (simp add: family_tree_def seed_persons)

lemma seed_siblings_child1: "set (fst (find_siblings family_tree child1)) = {child2}"
  by (auto simp: set_find_siblings family_tree_heap seed_persons ref_neq)

lemma seed_siblings_cornelia: "set (fst (find_siblings family_tree cornelia)) = {}"
  by (auto simp: set_find_siblings family_tree_heap seed_persons ref_neq)

lemma seed_siblings_otto: "set (fst (find_siblings family_tree otto)) = {}"
  by (auto simp: set_find_siblings family_tree_heap seed_persons ref_neq)

lemma seed_child_linked: "child_linked seed_heap"
  unfolding child_linked_def
proof (intro allI ballI)
  fix parent c
  assume c: "c \<in> set (children (seed_heap parent))"
  consider "parent = cornelia" | "parent = otto" | "parent = anna" | "parent = raj"
    | "parent = maria" | "parent = hans" | "parent = child1" | "parent = child2" | "7 < parent"
    unfolding ref_defs by linarith
  then show "parent \<in> set (parents (seed_heap c))"
    using c by cases (auto simp: seed_persons seed_other PersonBase_init_def)
qed

lemma seed_cases:
  obtains "p = cornelia" | "p = otto" | "p = anna" | "p = raj"
    | "p = maria" | "p = hans" | "p = child1" | "p = child2" | "7 < p"
  unfolding ref_defs by linarith

lemma seed_back_linked: "back_linked seed_heap"
  unfolding back_linked_def
proof (intro allI ballI)
  fix p parent
  assume "parent \<in> set (parents (seed_heap p))"
  then show "p \<in> set (children (seed_heap parent))"
    by (cases p rule: seed_cases) (auto simp: seed_persons seed_other PersonBase_init_def)
qed

lemma seed_spouse_symmetric: "spouse_symmetric seed_heap"
  unfolding spouse_symmetric_def
proof (intro allI impI)
  fix p s
  assume "spouse (seed_heap p) = Some s"
  then show "spouse (seed_heap s) = Some p"
    by (cases p rule: seed_cases) (auto simp: seed_persons seed_other PersonBase_init_def)
qed

lemma created_no_links:
  "parents (created r) = []" "children (created r) = []" "spouse (created r) = None"
  by (simp_all add: created_def init_heap_def new_LivingPerson_def new_DeceasedPerson_def
      PersonBase_init_def)

lemma created_symmetric: "spouse_symmetric created"
  by (simp add: spouse_symmetric_def created_no_links)

lemma created_back_linked: "back_linked created"
  by (simp add: back_linked_def created_no_links)

lemma seed_heap_run:
  "seed_heap =
     run_links created
       [SetParents cornelia [anna, raj], SetParents otto [maria, hans],
        SetChildren cornelia [child1, child2], SetChildren otto [child1, child2],
        SetSpouse cornelia otto]"
  by (simp add: seed_heap_def run_links_def Let_def)

lemma seed_heap_links: "seed_heap = run_links created seed_links"
  by (simp add: seed_heap_def run_links_def seed_links_def Let_def)

lemma seed_step1: "back_linked (set_parents created cornelia [anna, raj])"
  by (simp add: set_parents_back_linked created_back_linked)

lemma seed_step2:
  "back_linked (set_parents (set_parents created cornelia [anna, raj]) otto [maria, hans])"
  by (simp add: set_parents_back_linked seed_step1)

lemma seed_step3:
  "back_linked
     (set_children (set_parents (set_parents created cornelia [anna, raj]) otto [maria, hans])
        cornelia [child1, child2])"
  by (rule set_children_back_linked [OF seed_step2])
     (simp add: set_parents_fields created_no_links ref_neq)

lemma seed_step4:
  "back_linked
     (set_children
        (set_children (set_parents (set_parents created cornelia [anna, raj]) otto [maria, hans])
           cornelia [child1, child2])
        otto [child1, child2])"
  by (rule set_children_back_linked [OF seed_step3])
     (simp add: set_children_fields set_parents_fields created_no_links ref_neq)

lemma seed_steps_back_linked: "back_linked (run_links created (take n seed_links))"
proof -
  consider "n = 0" | "n = 1" | "n = 2" | "n = 3" | "n = 4" | "5 \<le> n"
    by linarith
  then show ?thesis
  proof cases
    case 1
    then show ?thesis by (simp add: run_links_def created_back_linked)
  next
    case 2
    then show ?thesis by (simp add: run_links_def seed_links_def seed_step1)
  next
    case 3
    then show ?thesis by (simp add: run_links_def seed_links_def seed_step2)
  next
    case 4
    then show ?thesis by (simp add: run_links_def seed_links_def seed_step3)
  next
    case 5
    then show ?thesis by (simp add: run_links_def seed_links_def seed_step4)
  next
    case 6
    then have "take n seed_links = seed_links"
      by (simp add: seed_links_def)
    then show ?thesis
      using seed_back_linked by (simp add: seed_heap_links [symmetric])
  qed
qed

lemma seed_deceased: "deceased_members family_tree = [otto, anna, raj, maria, hans]"
  by (simp add: deceased_members_def family_tree_members family_tree_heap seed_persons
      is_deceased_def)

lemmas date_defs =
  days_between_def toordinal_def days_before_year_def days_before_month_def days_in_month_def
  is_leap_def mk_date_def Let_def

lemma seed_ages:
  "age_at_death (seed_heap otto) = 54"
  "age_at_death (seed_heap anna) = 69"
  "age_at_death (seed_heap raj) = 68"
  "age_at_death (seed_heap maria) = 62"
  "age_at_death (seed_heap hans) = 72"
  by (simp_all add: age_at_death_def seed_persons date_defs)

lemma key_less: "fst x < fst y \<Longrightarrow> (x :: (int \<times> int) \<times> string list) \<le> y"
  unfolding less_eq_prod_def [of x y] by blast

lemma key_greater: "fst y < fst x \<Longrightarrow> \<not> (x :: (int \<times> int) \<times> string list) \<le> y"
  unfolding less_eq_prod_def [of x y] by auto

lemma seed_calendar_unsorted:
  "fold (calendar_step seed_heap)
      [cornelia, otto, anna, raj, maria, hans, child1, child2] [] =
     [((5, 20), [''Cornelia Emmersohn'']), ((8, 15), [''Otto Emmersohn'']),
      ((4, 10), [''Anna Singh'']),
      ((6, 5), [''Raj Singh'', ''Maria M'' @ [CHR 0xC3, CHR 0xBC] @ ''ller'']),
      ((3, 22), [''Hans Emmersohn'']), ((11, 12), [''Lucas Emmersohn'']),
      ((2, 28), [''Emma Emmersohn''])]"
  by (simp add: calendar_step_def calendar_append_def seed_persons mk_date_def)

lemma seed_calendar:
  "get_birthdays_calendar family_tree =
     [((2, 28), [''Emma Emmersohn'']), ((3, 22), [''Hans Emmersohn'']),
      ((4, 10), [''Anna Singh'']), ((5, 20), [''Cornelia Emmersohn'']),
      ((6, 5), [''Raj Singh'', ''Maria M'' @ [CHR 0xC3, CHR 0xBC] @ ''ller'']),
      ((8, 15), [''Otto Emmersohn'']), ((11, 12), [''Lucas Emmersohn''])]"
proof -
  have m: "map snd (members family_tree) =
      [cornelia, otto, anna, raj, maria, hans, child1, child2]"
    by (simp add: family_tree_members)
  show ?thesis
    unfolding get_birthdays_calendar_def m family_tree_heap seed_calendar_unsorted
    by (simp add: key_less key_greater del: less_eq_prod_simp)
qed

subsection \<open>The family with the twofold cousin, evaluated\<close>

lemmas cousin_defs =
  cousin_heap_def init_heap_def set_parents_def set_children_def append_child_def
  append_parent_def PersonBase_init_def Let_def

lemma cousin_links:
  "parents (cousin_heap 16) = [12, 13]"
  "parents (cousin_heap 12) = [10]"
  "parents (cousin_heap 13) = [11]"
  "parents (cousin_heap 14) = [10, 11]"
  "children (cousin_heap 10) = [12, 14]"
  "children (cousin_heap 11) = [13, 14]"
  "children (cousin_heap 14) = [15]"
  by (simp_all add: cousin_defs)

lemma cousin_world_heap: "heap cousin_world = cousin_heap"
  by (simp add: cousin_world_def)

lemma cousin_siblings:
  "fst (find_siblings cousin_world 12) = [14]"
  "fst (find_siblings cousin_world 13) = [14]"
  by (simp_all add: find_siblings_def cousin_world_heap cousin_links pyset_update_def
      pyset_add_def pyset_discard_def)

lemma cousin_cousins: "fst (find_cousins cousin_world 16) = [15, 15]"
  by (simp add: find_cousins_eq cousin_world_heap cousin_links cousin_siblings)

subsection \<open>Registry lookup\<close>

lemma map_of_absent: "n \<notin> fst ` set xs \<Longrightarrow> map_of xs n = None"
  by (simp add: map_of_eq_None_iff)

text \<open>
  Claim C8. A name that is no key of the registry: \<^verbatim>\<open>get_person\<close> returns \<^verbatim>\<open>None\<close>
  and \<^verbatim>\<open>get_member_details\<close> returns the text \<^verbatim>\<open>Person not found.\<close>; both are
  ordinary results, no error. A name that is a key: \<^verbatim>\<open>get_person\<close> returns the person
  stored under it and \<^verbatim>\<open>get_member_details\<close> returns whatever \<^verbatim>\<open>display_details\<close>
  of that person returns, which is a text for a living and for a deceased person.
\<close>

theorem lookup_not_found:
  "(n \<notin> fst ` set (members w) \<longrightarrow>
      get_person w n = None \<and> get_member_details w n = Inr ''Person not found.'') \<and>
   (\<forall>person. get_person w n = Some person \<longrightarrow>
      (n, person) \<in> set (members w) \<and>
      get_member_details w n = display_details (heap w person)) \<and>
   (\<forall>person. distinct (map fst (members w)) \<and> (n, person) \<in> set (members w) \<longrightarrow>
      get_person w n = Some person) \<and>
   (\<forall>person. get_person w n = Some person \<and> kind (heap w person) \<noteq> PersonBase \<longrightarrow>
      (\<exists>s. get_member_details w n = Inr s))"
  by (auto simp: get_person_def get_member_details_def display_details_def map_of_absent
      dest: map_of_SomeD split: variant.splits)

theorem lookup_not_found_witness:
  "get_person family_tree ''Nobody'' = None \<and>
   get_member_details family_tree ''Nobody'' = Inr ''Person not found.'' \<and>
   get_person family_tree ''Lucas Emmersohn'' = Some child1 \<and>
   get_member_details family_tree ''Lucas Emmersohn'' =
     Inr ''Name: Lucas Emmersohn, Birth Date: 1992-11-12 (Alive)'' \<and>
   get_member_details family_tree ''Otto Emmersohn'' =
     Inr ''Name: Otto Emmersohn, Birth Date: 1965-08-15, Death Date: 2020-04-10''"
proof -
  have absent: "''Nobody'' \<notin> fst ` set (members family_tree)"
    by (simp add: family_tree_members)
  have lucas: "get_person family_tree ''Lucas Emmersohn'' = Some child1"
    by (simp add: get_person_def family_tree_members)
  have otto: "get_person family_tree ''Otto Emmersohn'' = Some otto"
    by (simp add: get_person_def family_tree_members)
  have d1: "display_details (seed_heap child1) =
     Inr ''Name: Lucas Emmersohn, Birth Date: 1992-11-12 (Alive)''"
    by (simp add: seed_child1 display_details_def str_birth_def str_date_def mk_date_def
        zfill_def digits.simps)
  have d2: "display_details (seed_heap otto) =
     Inr ''Name: Otto Emmersohn, Birth Date: 1965-08-15, Death Date: 2020-04-10''"
    by (simp add: seed_otto display_details_def str_birth_def str_date_def mk_date_def
        zfill_def digits.simps)
  from lookup_not_found [of "''Nobody''" family_tree] absent
    lookup_not_found [of "''Lucas Emmersohn''" family_tree] lucas
    lookup_not_found [of "''Otto Emmersohn''" family_tree] otto d1 d2
  show ?thesis by (simp add: family_tree_heap)
qed

subsection \<open>Extended and immediate family\<close>

text \<open>
  Claim C1. Every person returned by \<^verbatim>\<open>find_extended_family\<close> is an instance of
  \<^verbatim>\<open>LivingPerson\<close>, and no deceased person is returned, whatever its relationship. The
  persons returned are exactly the living ones among the immediate family, the siblings
  of each parent (aunts and uncles) and the children of those siblings (cousins).
  \<^verbatim>\<open>find_immediate_family\<close> returns the parents, the siblings, the spouse and the
  children, with no filter on the class.
\<close>

theorem extended_family_living_only:
  "(\<forall>m \<in> set (fst (find_extended_family w p)). kind (heap w m) = LivingPerson) \<and>
   (\<forall>m d. kind (heap w m) = DeceasedPerson d \<longrightarrow> m \<notin> set (fst (find_extended_family w p))) \<and>
   set (fst (find_extended_family w p)) =
     {m \<in> set (fst (find_immediate_family w p)) \<union>
           (\<Union>parent \<in> set (parents (heap w p)). \<Union>sibling \<in> set (fst (find_siblings w parent)).
              insert sibling (set (children (heap w sibling)))).
        kind (heap w m) = LivingPerson} \<and>
   set (fst (find_immediate_family w p)) =
     set (parents (heap w p)) \<union> set (fst (find_siblings w p)) \<union>
     set_option (spouse (heap w p)) \<union> set (children (heap w p))"
proof -
  have ext: "set (fst (find_extended_family w p)) =
     {m \<in> set (fst (find_immediate_family w p)) \<union>
           (\<Union>parent \<in> set (parents (heap w p)). \<Union>sibling \<in> set (fst (find_siblings w parent)).
              insert sibling (set (children (heap w sibling)))).
        kind (heap w m) = LivingPerson}"
    by (rule set_find_extended_family)
  have living: "\<forall>m \<in> set (fst (find_extended_family w p)). kind (heap w m) = LivingPerson"
    unfolding ext by simp
  have deceased: "\<forall>m d. kind (heap w m) = DeceasedPerson d \<longrightarrow>
      m \<notin> set (fst (find_extended_family w p))"
    using living by auto
  show ?thesis
    using ext living deceased set_find_immediate_family [of w p] by blast
qed

theorem extended_family_living_only_witness:
  "set (fst (find_extended_family family_tree child1)) = {cornelia, child2} \<and>
   set (fst (find_immediate_family family_tree child1)) = {cornelia, otto, child2} \<and>
   kind (heap family_tree otto) = DeceasedPerson (mk_date 2020 4 10) \<and>
   otto \<notin> set (fst (find_extended_family family_tree child1)) \<and>
   kind (heap family_tree cornelia) = LivingPerson"
proof -
  have k: "kind (heap family_tree otto) = DeceasedPerson (mk_date 2020 4 10)"
    by (simp add: family_tree_heap seed_otto)
  have imm: "set (fst (find_immediate_family family_tree child1)) = {cornelia, otto, child2}"
    by (auto simp: set_find_immediate_family seed_siblings_child1 family_tree_heap seed_child1)
  have aunts: "(\<Union>parent \<in> set (parents (heap family_tree child1)).
           \<Union>sibling \<in> set (fst (find_siblings family_tree parent)).
              insert sibling (set (children (heap family_tree sibling)))) = {}"
    by (simp add: family_tree_heap seed_child1 seed_siblings_cornelia seed_siblings_otto)
  have ext: "set (fst (find_extended_family family_tree child1)) = {cornelia, child2}"
    unfolding set_find_extended_family aunts imm
    by (auto simp: family_tree_heap seed_persons)
  have "\<forall>m \<in> set (fst (find_extended_family family_tree child1)).
          kind (heap family_tree m) = LivingPerson"
    using extended_family_living_only [of family_tree child1] by (rule conjunct1)
  then have c: "kind (heap family_tree cornelia) = LivingPerson"
    unfolding ext by simp
  have o: "otto \<notin> set (fst (find_extended_family family_tree child1))"
    unfolding ext by (simp add: ref_neq)
  from k imm ext c o show ?thesis by simp
qed

subsection \<open>Siblings\<close>

text \<open>
  Claim C4. The persons returned by \<^verbatim>\<open>find_siblings\<close> are the children of the parents
  of the person, the person itself removed: each of them is a child of some parent of the
  person, each child of even one parent is returned (half siblings too), nobody is
  returned twice, and the person itself is never returned. Where the child lists are
  linked back, each of them has a parent in common with the person.
\<close>

theorem siblings_share_a_parent:
  "set (fst (find_siblings w p)) =
     (\<Union>parent \<in> set (parents (heap w p)). set (children (heap w parent))) - {p} \<and>
   distinct (fst (find_siblings w p)) \<and>
   p \<notin> set (fst (find_siblings w p)) \<and>
   (\<forall>x \<in> set (fst (find_siblings w p)).
      \<exists>parent \<in> set (parents (heap w p)). x \<in> set (children (heap w parent))) \<and>
   (\<forall>parent x. parent \<in> set (parents (heap w p)) \<and> x \<in> set (children (heap w parent)) \<and>
      x \<noteq> p \<longrightarrow> x \<in> set (fst (find_siblings w p))) \<and>
   (child_linked (heap w) \<longrightarrow>
      (\<forall>x \<in> set (fst (find_siblings w p)).
         \<exists>parent. parent \<in> set (parents (heap w p)) \<and> parent \<in> set (parents (heap w x))))"
proof -
  have s: "set (fst (find_siblings w p)) =
     (\<Union>parent \<in> set (parents (heap w p)). set (children (heap w parent))) - {p}"
    by (rule set_find_siblings)
  have a: "\<forall>x \<in> set (fst (find_siblings w p)).
      \<exists>parent \<in> set (parents (heap w p)). x \<in> set (children (heap w parent))"
    unfolding s by blast
  have b: "child_linked (heap w) \<longrightarrow>
      (\<forall>x \<in> set (fst (find_siblings w p)).
         \<exists>parent. parent \<in> set (parents (heap w p)) \<and> parent \<in> set (parents (heap w x)))"
    using a unfolding child_linked_def by blast
  have c: "p \<notin> set (fst (find_siblings w p))"
    unfolding s by simp
  have d: "\<forall>parent x. parent \<in> set (parents (heap w p)) \<and> x \<in> set (children (heap w parent)) \<and>
      x \<noteq> p \<longrightarrow> x \<in> set (fst (find_siblings w p))"
    unfolding s by blast
  show ?thesis using s a b c d distinct_find_siblings [of w p] by blast
qed

theorem siblings_share_a_parent_witness:
  "child_linked (heap family_tree) \<and>
   set (fst (find_siblings family_tree child1)) = {child2} \<and>
   child2 \<noteq> child1 \<and>
   (\<exists>parent. parent \<in> set (parents (heap family_tree child1)) \<and>
              parent \<in> set (parents (heap family_tree child2))) \<and>
   parents (heap cousin_world 12) = [10] \<and>
   parents (heap cousin_world 14) = [10, 11] \<and>
   14 \<in> set (fst (find_siblings cousin_world 12))"
proof -
  have l: "child_linked (heap family_tree)"
    by (simp add: family_tree_heap seed_child_linked)
  have "child_linked (heap family_tree) \<longrightarrow>
      (\<forall>x \<in> set (fst (find_siblings family_tree child1)).
         \<exists>parent. parent \<in> set (parents (heap family_tree child1)) \<and>
                   parent \<in> set (parents (heap family_tree x)))"
    using siblings_share_a_parent [of family_tree child1] by blast
  then have e: "\<exists>parent. parent \<in> set (parents (heap family_tree child1)) \<and>
                   parent \<in> set (parents (heap family_tree child2))"
    using l by (simp add: seed_siblings_child1)
  have "\<forall>parent x. parent \<in> set (parents (heap cousin_world 12)) \<and>
      x \<in> set (children (heap cousin_world parent)) \<and> x \<noteq> 12 \<longrightarrow>
      x \<in> set (fst (find_siblings cousin_world 12))"
    using siblings_share_a_parent [of cousin_world 12] by blast
  then have h: "14 \<in> set (fst (find_siblings cousin_world 12))"
    by (simp add: cousin_world_heap cousin_links)
  from l e h show ?thesis
    by (simp add: seed_siblings_child1 ref_neq cousin_world_heap cousin_links)
qed

subsection \<open>Cousins\<close>

text \<open>
  Claim C5. \<^verbatim>\<open>find_cousins\<close> returns, for each parent of the person in turn and each
  sibling of that parent, the children of that sibling, one list after the other. As
  a multiset this does not depend on the order in which the siblings are visited.
  Nothing is removed, so a cousin can be returned twice: in the family built above
  person 14 is a sibling of both parents of person 16.
\<close>

theorem cousins_not_deduplicated:
  "fst (find_cousins w p) =
     concat (map (\<lambda>parent. concat (map (\<lambda>sibling. children (heap w sibling))
                                      (fst (find_siblings w parent))))
               (parents (heap w p))) \<and>
   mset (fst (find_cousins w p)) =
     (\<Sum>parent \<in># mset (parents (heap w p)).
        \<Sum>sibling \<in># mset_set ((\<Union>q \<in> set (parents (heap w parent)). set (children (heap w q))) - {parent}).
          mset (children (heap w sibling))) \<and>
   (\<exists>w' p'. \<not> distinct (fst (find_cousins w' p')))"
proof -
  have l: "fst (find_cousins w p) =
     concat (map (\<lambda>parent. concat (map (\<lambda>sibling. children (heap w sibling))
                                      (fst (find_siblings w parent))))
               (parents (heap w p)))"
    by (simp add: find_cousins_eq)
  have sib: "mset (fst (find_siblings w parent)) =
      mset_set ((\<Union>q \<in> set (parents (heap w parent)). set (children (heap w q))) - {parent})"
    for parent
    using mset_set_set [OF distinct_find_siblings [of w parent]]
    by (simp add: set_find_siblings)
  have m: "mset (fst (find_cousins w p)) =
     (\<Sum>parent \<in># mset (parents (heap w p)).
        \<Sum>sibling \<in># mset_set ((\<Union>q \<in> set (parents (heap w parent)). set (children (heap w q))) - {parent}).
          mset (children (heap w sibling)))"
    unfolding l by (simp add: mset_concat_map sib)
  have "\<not> distinct (fst (find_cousins cousin_world 16))"
    by (simp add: cousin_cousins)
  then have e: "\<exists>w' p'. \<not> distinct (fst (find_cousins w' p'))"
    by blast
  show ?thesis using l m e by blast
qed

theorem cousins_not_deduplicated_witness:
  "fst (find_cousins cousin_world 16) = [15, 15] \<and>
   fst (find_siblings cousin_world 12) = [14] \<and>
   fst (find_siblings cousin_world 13) = [14] \<and>
   children (heap cousin_world 14) = [15] \<and>
   parents (heap cousin_world 16) = [12, 13]"
proof -
  have "fst (find_cousins cousin_world 16) =
     concat (map (\<lambda>parent. concat (map (\<lambda>sibling. children (heap cousin_world sibling))
                                      (fst (find_siblings cousin_world parent))))
               (parents (heap cousin_world 16)))"
    using cousins_not_deduplicated [of cousin_world 16] by (rule conjunct1)
  then show ?thesis
    by (simp add: cousin_world_heap cousin_links cousin_siblings)
qed

subsection \<open>The relationship methods change nothing\<close>

text \<open>
  Claim C9. Each of the six relationship methods leaves the program state (every field
  of every person, and the registry) as it found it, on every object graph, cyclic or
  not. What it returns are references that are stored in link fields of the store, so
  they denote the persons of the graph themselves.
\<close>

theorem resolvers_pure:
  "snd (find_parents w p) = w \<and> set (fst (find_parents w p)) \<subseteq> linked (heap w) \<and>
   snd (find_grandparents w p) = w \<and> set (fst (find_grandparents w p)) \<subseteq> linked (heap w) \<and>
   snd (find_siblings w p) = w \<and> set (fst (find_siblings w p)) \<subseteq> linked (heap w) \<and>
   snd (find_cousins w p) = w \<and> set (fst (find_cousins w p)) \<subseteq> linked (heap w) \<and>
   snd (find_immediate_family w p) = w \<and>
   set (fst (find_immediate_family w p)) \<subseteq> linked (heap w) \<and>
   snd (find_extended_family w p) = w \<and>
   set (fst (find_extended_family w p)) \<subseteq> linked (heap w)"
proof -
  have p1: "snd (find_parents w p) = w \<and> set (fst (find_parents w p)) \<subseteq> linked (heap w)"
    using linked_parents [of "heap w" p] by (simp add: find_parents_def)
  have p2: "snd (find_grandparents w p) = w \<and>
            set (fst (find_grandparents w p)) \<subseteq> linked (heap w)"
    using linked_parents [of "heap w"] by (auto simp: find_grandparents_eq)
  have p3: "snd (find_siblings w p) = w \<and> set (fst (find_siblings w p)) \<subseteq> linked (heap w)"
    by (simp add: find_siblings_snd siblings_linked)
  have p4: "snd (find_cousins w p) = w \<and> set (fst (find_cousins w p)) \<subseteq> linked (heap w)"
    using linked_children [of "heap w"] by (auto simp: find_cousins_eq)
  have p5: "snd (find_immediate_family w p) = w \<and>
            set (fst (find_immediate_family w p)) \<subseteq> linked (heap w)"
    by (simp add: find_immediate_family_snd immediate_linked)
  have "set (fst (find_extended_family w p)) \<subseteq> linked (heap w)"
    using immediate_linked [of w p] siblings_linked [of w] linked_children [of "heap w"]
    unfolding set_find_extended_family by blast
  then have p6: "snd (find_extended_family w p) = w \<and>
            set (fst (find_extended_family w p)) \<subseteq> linked (heap w)"
    by (simp add: find_extended_family_snd)
  from p1 p2 p3 p4 p5 p6 show ?thesis by blast
qed

theorem resolvers_pure_witness:
  "snd (find_extended_family family_tree child1) = family_tree \<and>
   snd (find_cousins family_tree child1) = family_tree \<and>
   fst (find_parents family_tree child1) = [cornelia, otto] \<and>
   fst (find_grandparents family_tree child1) = [anna, raj, maria, hans] \<and>
   cornelia \<in> linked (heap family_tree)"
proof -
  have a: "fst (find_parents family_tree child1) = [cornelia, otto]"
    by (simp add: find_parents_def family_tree_heap seed_child1)
  have b: "fst (find_grandparents family_tree child1) = [anna, raj, maria, hans]"
    by (simp add: find_grandparents_eq family_tree_heap seed_persons)
  have "set (fst (find_parents family_tree child1)) \<subseteq> linked (heap family_tree)"
    using resolvers_pure [of family_tree child1] by blast
  then have c: "cornelia \<in> linked (heap family_tree)"
    unfolding a by simp
  have d: "snd (find_extended_family family_tree child1) = family_tree"
    using resolvers_pure [of family_tree child1] by blast
  have e: "snd (find_cousins family_tree child1) = family_tree"
    using resolvers_pure [of family_tree child1] by blast
  from a b c d e show ?thesis by simp
qed

subsection \<open>Spouse links\<close>

text \<open>
  Claim C2 (as amended). One call of the spouse setter leaves both sides linked:
  afterwards the spouse of \<open>p\<close> is \<open>s\<close> and the spouse of \<open>s\<close> is \<open>p\<close>. Spouse
  symmetry is kept by a call in which each of the two persons has no spouse yet or
  already has the other as spouse; therefore it holds after every sequence of link
  operations that marries only such persons, and it holds in the seed data. A call
  that gives a married person a new partner does not keep it: after Cornelia of the
  seed data is linked to Hans, Otto still refers to Cornelia.
\<close>

theorem spouse_links_symmetric:
  "spouse (spouse_setter h p s p) = Some s \<and>
   spouse (spouse_setter h p s s) = Some p \<and>
   (spouse_symmetric h \<and> free_for h p s \<and> free_for h s p \<longrightarrow>
      spouse_symmetric (spouse_setter h p s)) \<and>
   (spouse_symmetric h \<and> marries_free h ops \<longrightarrow> spouse_symmetric (run_links h ops)) \<and>
   spouse_symmetric (heap family_tree)"
  using spouse_setter_symmetric [of h p s] run_links_symmetric [of h ops] seed_spouse_symmetric
  by (simp add: spouse_setter_spouse family_tree_heap)

theorem spouse_links_symmetric_witness:
  "spouse_symmetric created \<and>
   marries_free created
     [SetParents cornelia [anna, raj], SetParents otto [maria, hans],
      SetChildren cornelia [child1, child2], SetChildren otto [child1, child2],
      SetSpouse cornelia otto] \<and>
   spouse_symmetric seed_heap \<and>
   spouse (seed_heap cornelia) = Some otto \<and>
   spouse (seed_heap otto) = Some cornelia"
proof -
  let ?ops = "[SetParents cornelia [anna, raj], SetParents otto [maria, hans],
      SetChildren cornelia [child1, child2], SetChildren otto [child1, child2],
      SetSpouse cornelia otto]"
  have f: "marries_free created ?ops"
    by (simp add: free_for_def set_parents_fields set_children_fields created_no_links)
  have "spouse_symmetric created \<and> marries_free created ?ops \<longrightarrow>
        spouse_symmetric (run_links created ?ops)"
    using spouse_links_symmetric [of created cornelia otto ?ops] by blast
  then have "spouse_symmetric seed_heap"
    using f created_symmetric by (simp add: seed_heap_run)
  then show ?thesis
    using f created_symmetric by (simp add: seed_cornelia seed_otto)
qed

theorem spouse_links_symmetric_counterexample:
  "spouse_symmetric seed_heap \<and>
   \<not> spouse_symmetric (run_links seed_heap [SetSpouse cornelia hans])"
proof -
  let ?h = "spouse_setter seed_heap cornelia hans"
  have a: "spouse (?h otto) = Some cornelia"
    by (simp add: spouse_setter_spouse seed_otto ref_neq)
  have b: "spouse (?h cornelia) = Some hans"
    by (simp add: spouse_setter_spouse ref_neq)
  have "\<not> spouse_symmetric ?h"
  proof
    assume "spouse_symmetric ?h"
    then have "spouse (?h cornelia) = Some otto"
      using a unfolding spouse_symmetric_def by blast
    then show False using b by (simp add: ref_neq)
  qed
  then show ?thesis
    by (simp add: run_links_def seed_spouse_symmetric)
qed

subsection \<open>Parent and child links\<close>

text \<open>
  Claim C3. In the seed data every person, and so every member of the registry, is
  listed among the children of each of its parents. The seed data are what the five
  link operations of the module make of the newly created persons, and the invariant
  holds after each of these operations. A call of \<^verbatim>\<open>set_parents\<close> with a list that
  nothing else refers to leaves the person with that parent list and in the child list
  of each of these parents; a call of \<^verbatim>\<open>set_children\<close> with such a list leaves the
  person with that child list and in the parent list of each of these children.
  Nothing is said here about calls that pass a list which is already a field of some
  person, nor about calls of \<^verbatim>\<open>set_children\<close> on a person that others already name
  as parent: the invariant need not survive them.
\<close>

theorem back_links_consistent:
  "back_linked (heap family_tree) \<and>
   (\<forall>r \<in> snd ` set (members family_tree).
      \<forall>parent \<in> set (parents (heap family_tree r)).
        r \<in> set (children (heap family_tree parent))) \<and>
   heap family_tree = run_links created seed_links \<and>
   (\<forall>n. back_linked (run_links created (take n seed_links))) \<and>
   parents (set_parents h p ps p) = ps \<and>
   (\<forall>parent \<in> set ps. p \<in> set (children (set_parents h p ps parent))) \<and>
   children (set_children h p cs p) = cs \<and>
   (\<forall>c \<in> set cs. p \<in> set (parents (set_children h p cs c)))"
proof -
  have a: "back_linked (heap family_tree)"
    by (simp add: family_tree_heap seed_back_linked)
  have b: "\<forall>r \<in> snd ` set (members family_tree).
      \<forall>parent \<in> set (parents (heap family_tree r)).
        r \<in> set (children (heap family_tree parent))"
    using a unfolding back_linked_def by blast
  have c: "heap family_tree = run_links created seed_links"
    by (simp add: family_tree_heap seed_heap_links)
  have d: "\<forall>n. back_linked (run_links created (take n seed_links))"
    by (simp add: seed_steps_back_linked)
  have e: "parents (set_parents h p ps p) = ps \<and>
   (\<forall>parent \<in> set ps. p \<in> set (children (set_parents h p ps parent))) \<and>
   children (set_children h p cs p) = cs \<and>
   (\<forall>c \<in> set cs. p \<in> set (parents (set_children h p cs c)))"
    by (simp add: set_parents_fields set_children_fields)
  from a b c d e show ?thesis by (intro conjI) (rule a, rule b, rule c, rule d, simp_all)
qed

theorem back_links_consistent_witness:
  "back_linked created \<and>
   back_linked (set_parents created cornelia [anna, raj]) \<and>
   back_linked
     (set_children (set_parents (set_parents created cornelia [anna, raj]) otto [maria, hans])
        cornelia [child1, child2]) \<and>
   cornelia \<in> set (children (set_parents created cornelia [anna, raj] anna)) \<and>
   otto \<in> set (parents (set_children created otto [child1, child2] child1)) \<and>
   parents (heap family_tree child1) = [cornelia, otto] \<and>
   child1 \<in> set (children (heap family_tree cornelia)) \<and>
   child1 \<in> set (children (heap family_tree otto))"
proof -
  note t = back_links_consistent [of created cornelia "[anna, raj]" "[child1, child2]"]
  note u = back_links_consistent [of created otto "[anna, raj]" "[child1, child2]"]
  note steps = t [THEN conjunct2, THEN conjunct2, THEN conjunct2, THEN conjunct1, THEN spec]
  have s0: "back_linked created"
    using steps [of 0] by (simp add: run_links_def)
  have s1: "back_linked (set_parents created cornelia [anna, raj])"
    using steps [of 1] by (simp add: run_links_def seed_links_def)
  have s3: "back_linked
     (set_children (set_parents (set_parents created cornelia [anna, raj]) otto [maria, hans])
        cornelia [child1, child2])"
    using steps [of 3] by (simp add: run_links_def seed_links_def)
  have b: "cornelia \<in> set (children (set_parents created cornelia [anna, raj] anna))"
    using t by simp
  have d: "otto \<in> set (parents (set_children created otto [child1, child2] child1))"
    using u by simp
  have e: "back_linked (heap family_tree)"
    by (rule t [THEN conjunct1])
  have f: "parents (heap family_tree child1) = [cornelia, otto]"
    by (simp add: family_tree_heap seed_child1)
  then have "child1 \<in> set (children (heap family_tree cornelia)) \<and>
             child1 \<in> set (children (heap family_tree otto))"
    using e unfolding back_linked_def by simp
  then show ?thesis using s0 s1 s3 b d f by simp
qed

subsection \<open>Marrying again\<close>

text \<open>
  Claim C10. The spouse setter changes the spouse field of the person and the spouse
  field of the new partner, and nothing else in the store. If the person was linked
  with a third person before, that person's spouse field still refers to the person
  afterwards, and the spouse links are no longer symmetric.
\<close>

theorem remarriage_keeps_old_link:
  "spouse_setter h p c p = (h p)\<lparr>spouse := Some c\<rparr> \<and>
   spouse_setter h p c c = (h c)\<lparr>spouse := Some p\<rparr> \<and>
   (\<forall>r. r \<noteq> p \<and> r \<noteq> c \<longrightarrow> spouse_setter h p c r = h r) \<and>
   (\<forall>b. spouse (h p) = Some b \<and> spouse (h b) = Some p \<and> b \<noteq> p \<and> b \<noteq> c \<longrightarrow>
      spouse (spouse_setter h p c p) = Some c \<and>
      spouse (spouse_setter h p c c) = Some p \<and>
      spouse (spouse_setter h p c b) = Some p \<and>
      \<not> spouse_symmetric (spouse_setter h p c))"
proof -
  have "\<not> spouse_symmetric (spouse_setter h p c)"
    if "spouse (h b) = Some p" "b \<noteq> p" "b \<noteq> c" for b
  proof
    assume s: "spouse_symmetric (spouse_setter h p c)"
    have "spouse (spouse_setter h p c b) = Some p"
      using that by (simp add: spouse_setter_spouse)
    then have "spouse (spouse_setter h p c p) = Some b"
      using s unfolding spouse_symmetric_def by blast
    then show False
      using that by (simp add: spouse_setter_spouse split: if_splits)
  qed
  then show ?thesis
    by (auto simp: spouse_setter_self spouse_setter_partner spouse_setter_other
        spouse_setter_spouse)
qed

theorem remarriage_keeps_old_link_witness:
  "spouse (seed_heap cornelia) = Some otto \<and>
   spouse (seed_heap otto) = Some cornelia \<and>
   spouse (spouse_setter seed_heap cornelia hans cornelia) = Some hans \<and>
   spouse (spouse_setter seed_heap cornelia hans hans) = Some cornelia \<and>
   spouse (spouse_setter seed_heap cornelia hans otto) = Some cornelia \<and>
   spouse_setter seed_heap cornelia hans anna = seed_heap anna \<and>
   \<not> spouse_symmetric (spouse_setter seed_heap cornelia hans)"
proof -
  have a: "spouse (seed_heap cornelia) = Some otto" "spouse (seed_heap otto) = Some cornelia"
    by (simp_all add: seed_cornelia seed_otto)
  note t = remarriage_keeps_old_link [of seed_heap cornelia hans]
  from t have "spouse (seed_heap cornelia) = Some otto \<and> spouse (seed_heap otto) = Some cornelia \<and>
      otto \<noteq> cornelia \<and> otto \<noteq> hans \<longrightarrow>
      spouse (spouse_setter seed_heap cornelia hans cornelia) = Some hans \<and>
      spouse (spouse_setter seed_heap cornelia hans hans) = Some cornelia \<and>
      spouse (spouse_setter seed_heap cornelia hans otto) = Some cornelia \<and>
      \<not> spouse_symmetric (spouse_setter seed_heap cornelia hans)"
    by blast
  then have b: "spouse (spouse_setter seed_heap cornelia hans cornelia) = Some hans \<and>
      spouse (spouse_setter seed_heap cornelia hans hans) = Some cornelia \<and>
      spouse (spouse_setter seed_heap cornelia hans otto) = Some cornelia \<and>
      \<not> spouse_symmetric (spouse_setter seed_heap cornelia hans)"
    using a by (simp add: ref_neq)
  from t have "anna \<noteq> cornelia \<and> anna \<noteq> hans \<longrightarrow>
      spouse_setter seed_heap cornelia hans anna = seed_heap anna"
    by blast
  then have c: "spouse_setter seed_heap cornelia hans anna = seed_heap anna"
    by (simp add: ref_neq)
  from a b c show ?thesis by simp
qed

subsection \<open>Average age at death\<close>

text \<open>
  Claim C6. \<^verbatim>\<open>calculate_average_age\<close> returns the mean, over the deceased members of the
  registry and nobody else, of the days between birth and death divided by 365 and
  rounded down; with no deceased member it returns 0. The quotient is exact here, where
  Python returns the nearest float. A deceased member without birth date, which the
  data model of the program does not foresee, makes the subtraction raise.
\<close>

theorem average_age_is_mean:
  "((\<forall>r \<in> set (deceased_members w). birth_date (heap w r) \<noteq> None) \<longrightarrow>
      calculate_average_age w = Inr (mean_age_at_death w)) \<and>
   (deceased_members w = [] \<longrightarrow> calculate_average_age w = Inr 0) \<and>
   ((\<exists>r \<in> set (deceased_members w). birth_date (heap w r) = None) \<longrightarrow>
      calculate_average_age w = Inl TypeError) \<and>
   set (deceased_members w) = {r \<in> snd ` set (members w). \<exists>dd. kind (heap w r) = DeceasedPerson dd} \<and>
   (\<forall>r dd b. kind (heap w r) = DeceasedPerson dd \<and> birth_date (heap w r) = Some b \<longrightarrow>
      age_at_death (heap w r) = (toordinal dd - toordinal b) div 365)"
proof -
  have a: "set (deceased_members w) =
      {r \<in> snd ` set (members w). \<exists>dd. kind (heap w r) = DeceasedPerson dd}"
    by (auto simp: deceased_members_def is_deceased_iff)
  have b: "\<forall>r dd b. kind (heap w r) = DeceasedPerson dd \<and> birth_date (heap w r) = Some b \<longrightarrow>
      age_at_death (heap w r) = (toordinal dd - toordinal b) div 365"
    by (simp add: age_at_death_def days_between_def)
  have c: "deceased_members w = [] \<longrightarrow> calculate_average_age w = Inr 0"
    by (simp add: calculate_average_age_eq mean_age_at_death_def)
  show ?thesis using a b c by (simp add: calculate_average_age_eq)
qed

theorem average_age_is_mean_witness:
  "deceased_members family_tree = [otto, anna, raj, maria, hans] \<and>
   map (\<lambda>r. age_at_death (heap family_tree r)) (deceased_members family_tree) =
     [54, 69, 68, 62, 72] \<and>
   mean_age_at_death family_tree = 65 \<and>
   calculate_average_age family_tree = Inr 65 \<and>
   calculate_average_age (family_tree\<lparr>members := [(''Lucas Emmersohn'', child1)]\<rparr>) = Inr 0"
proof -
  have b: "\<forall>r \<in> set (deceased_members family_tree). birth_date (heap family_tree r) \<noteq> None"
    by (simp add: seed_deceased family_tree_heap seed_persons)
  have ages: "map (\<lambda>r. age_at_death (heap family_tree r)) (deceased_members family_tree) =
     [54, 69, 68, 62, 72]"
    by (simp add: seed_deceased family_tree_heap seed_ages)
  have m: "mean_age_at_death family_tree = 65"
    unfolding mean_age_at_death_def ages by (simp add: seed_deceased)
  have c: "calculate_average_age family_tree = Inr (mean_age_at_death family_tree)"
    using average_age_is_mean [of family_tree] b by blast
  have e: "deceased_members (family_tree\<lparr>members := [(''Lucas Emmersohn'', child1)]\<rparr>) = []"
    by (simp add: deceased_members_def family_tree_heap seed_child1 is_deceased_def)
  have z: "calculate_average_age (family_tree\<lparr>members := [(''Lucas Emmersohn'', child1)]\<rparr>) = Inr 0"
    using average_age_is_mean [of "family_tree\<lparr>members := [(''Lucas Emmersohn'', child1)]\<rparr>"] e
    by blast
  from ages m c z show ?thesis by (simp add: seed_deceased)
qed

subsection \<open>Birthday calendar\<close>

text \<open>
  Claim C7. The keys of \<^verbatim>\<open>get_birthdays_calendar\<close> ascend strictly by (month, day).
  Under each key stand the names of exactly the members born on it, in registry
  order, and every member with a birth date stands under its key. For the seed data
  the first key is (2, 28) and the last is (11, 12).
\<close>

theorem birthday_calendar_sorted:
  "sorted (map fst (get_birthdays_calendar w)) \<and>
   distinct (map fst (get_birthdays_calendar w)) \<and>
   sorted_wrt (<) (map fst (get_birthdays_calendar w)) \<and>
   (\<forall>k ns. (k, ns) \<in> set (get_birthdays_calendar w) \<longleftrightarrow>
      ns \<noteq> [] \<and> ns = names_on (heap w) (map snd (members w)) k) \<and>
   (\<forall>r \<in> set (map snd (members w)). \<forall>d. birth_date (heap w r) = Some d \<longrightarrow>
      (\<exists>ns. ((month d, day d), ns) \<in> set (get_birthdays_calendar w) \<and>
            name (heap w r) \<in> set ns)) \<and>
   hd (map fst (get_birthdays_calendar family_tree)) = (2, 28) \<and>
   last (map fst (get_birthdays_calendar family_tree)) = (11, 12)"
proof -
  let ?cal = "get_birthdays_calendar w"
  let ?rs = "map snd (members w)"
  have s: "sorted (map fst ?cal)" by (rule calendar_keys_sorted)
  have d: "distinct (map fst ?cal)" by (rule calendar_keys_distinct)
  have st: "sorted_wrt (<) (map fst ?cal)"
    using s d by (simp add: strict_sorted_iff)
  have g: "(k, ns) \<in> set ?cal \<longleftrightarrow> ns \<noteq> [] \<and> ns = names_on (heap w) ?rs k" for k ns
  proof -
    have "(k, ns) \<in> set ?cal \<longleftrightarrow> map_of ?cal k = Some ns"
      using d by simp
    then show ?thesis
      by (auto simp: calendar_map_of)
  qed
  have m: "\<exists>ns. ((month d, day d), ns) \<in> set ?cal \<and> name (heap w r) \<in> set ns"
    if "r \<in> set ?rs" "birth_date (heap w r) = Some d" for r d
  proof -
    have "name (heap w r) \<in> set (names_on (heap w) ?rs (month d, day d))"
      using that unfolding names_on_def birthday_key_def by force
    then show ?thesis
      using g [of "(month d, day d)" "names_on (heap w) ?rs (month d, day d)"] by force
  qed
  have e: "hd (map fst (get_birthdays_calendar family_tree)) = (2, 28) \<and>
           last (map fst (get_birthdays_calendar family_tree)) = (11, 12)"
    by (simp add: seed_calendar)
  show ?thesis using s d st g m e by blast
qed

theorem birthday_calendar_sorted_witness:
  "get_birthdays_calendar family_tree =
     [((2, 28), [''Emma Emmersohn'']), ((3, 22), [''Hans Emmersohn'']),
      ((4, 10), [''Anna Singh'']), ((5, 20), [''Cornelia Emmersohn'']),
      ((6, 5), [''Raj Singh'', ''Maria M'' @ [CHR 0xC3, CHR 0xBC] @ ''ller'']),
      ((8, 15), [''Otto Emmersohn'']), ((11, 12), [''Lucas Emmersohn''])] \<and>
   names_on (heap family_tree) (map snd (members family_tree)) (6, 5) =
     [''Raj Singh'', ''Maria M'' @ [CHR 0xC3, CHR 0xBC] @ ''ller''] \<and>
   hd (map fst (get_birthdays_calendar family_tree)) = (2, 28) \<and>
   last (map fst (get_birthdays_calendar family_tree)) = (11, 12)"
proof -
  let ?L = "[''Raj Singh'', ''Maria M'' @ [CHR 0xC3, CHR 0xBC] @ ''ller'']"
  note t = birthday_calendar_sorted [of family_tree]
  note g = t [THEN conjunct2, THEN conjunct2, THEN conjunct2, THEN conjunct1, THEN spec,
      THEN spec]
  note e = t [THEN conjunct2, THEN conjunct2, THEN conjunct2, THEN conjunct2, THEN conjunct2]
  have mem: "((6, 5), ?L) \<in> set (get_birthdays_calendar family_tree)"
    unfolding seed_calendar by simp
  have n: "names_on (heap family_tree) (map snd (members family_tree)) (6, 5) = ?L"
    by (rule g [of "(6, 5)" ?L, THEN iffD1, OF mem, THEN conjunct2, THEN sym])
  show ?thesis
    by (intro conjI) (rule seed_calendar, rule n, rule e [THEN conjunct1], rule e [THEN conjunct2])
qed

end
